theory Spec2Isabelle
  imports Main
begin

section \<open>Prompt templates of the RAG chatbot backend\<close>

text \<open>
  A shallow embedding of \<^verbatim>\<open>backend/app/services/llm/prompt_templates.py\<close>.
  Python strings are \<open>string\<close> (a character beyond ASCII is its UTF-8 bytes), a
  \<^verbatim>\<open>Dict[str, str]\<close> is a map from strings to strings, Python's unbounded
  \<^verbatim>\<open>int\<close> is \<open>int\<close>. An exception is a value of \<open>py_error\<close>, and a
  function that can raise returns \<open>py_error + string\<close>.
\<close>

subsection \<open>Messages\<close>

text \<open>
  A message is a \<^verbatim>\<open>Dict[str, str]\<close>: \<open>m k = None\<close> says that the key \<open>k\<close> is
  not in the dictionary, so \<^verbatim>\<open>msg.get(k)\<close> is \<open>m k\<close> and \<^verbatim>\<open>k in msg\<close> is
  \<open>m k \<noteq> None\<close>.
\<close>

type_synonym message = "string \<rightharpoonup> string"

text \<open>The dictionary literal \<^verbatim>\<open>{"role": r, "content": c}\<close>.\<close>

definition mk_message :: "string \<Rightarrow> string \<Rightarrow> message" where
  "mk_message r c = [''role'' \<mapsto> r, ''content'' \<mapsto> c]"

text \<open>Truth value of a dictionary in a condition: an empty dictionary is false.\<close>

definition dict_truthy :: "message \<Rightarrow> bool" where
  "dict_truthy m \<longleftrightarrow> m \<noteq> Map.empty"

subsection \<open>\<^verbatim>\<open>build_messages\<close>\<close>

text \<open>
  The optional argument \<^verbatim>\<open>conversation_history\<close> defaults to \<^verbatim>\<open>None\<close>; the
  condition \<^verbatim>\<open>if conversation_history:\<close> is false for \<^verbatim>\<open>None\<close> and for the
  empty list.
\<close>

definition build_messages :: "string \<Rightarrow> string \<Rightarrow> message list option \<Rightarrow> message list" where
  "build_messages system_prompt user_prompt conversation_history =
     (let messages = [mk_message ''system'' system_prompt];
          messages = (case conversation_history of
                        None \<Rightarrow> messages
                      | Some h \<Rightarrow> if h \<noteq> [] then messages @ h else messages)
      in messages @ [mk_message ''user'' user_prompt])"

subsection \<open>\<^verbatim>\<open>truncate_conversation_history\<close>\<close>

text \<open>
  The slice \<^verbatim>\<open>xs[i:]\<close> of Python: a negative start counts from the end, and a start
  out of range is clamped to the list, never an error.
\<close>

definition slice_from :: "'a list \<Rightarrow> int \<Rightarrow> 'a list" where
  "slice_from xs i =
     (let n = int (length xs);
          start = (if i < 0 then max (n + i) 0 else min i n)
      in drop (nat start) xs)"

text \<open>
  The loop over \<^verbatim>\<open>history\<close>, with its two variables \<^verbatim>\<open>system_msg\<close> and
  \<^verbatim>\<open>other_msgs\<close> passed along.
\<close>

fun partition_history ::
  "message list \<Rightarrow> message option \<Rightarrow> message list \<Rightarrow> message option \<times> message list" where
  "partition_history [] system_msg other_msgs = (system_msg, other_msgs)"
| "partition_history (msg # history) system_msg other_msgs =
     (if msg ''role'' = Some ''system'' then partition_history history (Some msg) other_msgs
      else if msg ''role'' \<noteq> None then partition_history history system_msg (other_msgs @ [msg])
      else partition_history history system_msg other_msgs)"

definition truncate_conversation_history :: "message list \<Rightarrow> int \<Rightarrow> message list" where
  "truncate_conversation_history history max_messages =
     (if history = [] then []
      else
        (case partition_history history None [] of
           (system_msg, other_msgs) \<Rightarrow>
             (let other_msgs =
                    (if int (length other_msgs) > max_messages
                     then slice_from other_msgs (- max_messages)
                     else other_msgs);
                  result = (case system_msg of
                              None \<Rightarrow> []
                            | Some m \<Rightarrow> if dict_truthy m then [m] else [])
              in result @ other_msgs)))"

text \<open>The call with the default \<^verbatim>\<open>max_messages=10\<close>.\<close>

definition truncate_conversation_history_default :: "message list \<Rightarrow> message list" where
  "truncate_conversation_history_default history = truncate_conversation_history history 10"

text \<open>The two tests of the loop, as predicates on a message.\<close>

definition is_system :: "message \<Rightarrow> bool" where
  "is_system msg \<longleftrightarrow> msg ''role'' = Some ''system''"

definition is_other :: "message \<Rightarrow> bool" where
  "is_other msg \<longleftrightarrow> msg ''role'' \<noteq> Some ''system'' \<and> msg ''role'' \<noteq> None"

text \<open>
  What the truncator returns, named by its two parts: the retained system message and the
  other messages that are kept.
\<close>

definition system_part :: "message list \<Rightarrow> message list" where
  "system_part h = (if filter is_system h = [] then [] else [last (filter is_system h)])"

definition kept_others :: "message list \<Rightarrow> int \<Rightarrow> message list" where
  "kept_others h n =
     (if int (length (filter is_other h)) > n
      then slice_from (filter is_other h) (- n) else filter is_other h)"

subsection \<open>Retrieval results\<close>

text \<open>
  Modelled from the spec: the class \<^verbatim>\<open>RetrievalResult\<close> of
  \<^verbatim>\<open>app.services.rag.retriever\<close> is not among the sources. The spec gives it a
  \<^verbatim>\<open>text\<close> (a string), a \<^verbatim>\<open>score\<close> (a number) and a \<^verbatim>\<open>metadata\<close> mapping.
  The values of the mapping are strings or integers here. The type of the score is a
  parameter, and so is its rendering \<^verbatim>\<open>{score:.3f}\<close>: the floating-point formatting
  of Python is outside this embedding, and every function below takes it as the argument
  \<open>format_3f\<close>.
\<close>

datatype py_value = PyStr string | PyInt int

record 's retrieval_result =
  "text" :: string
  score :: 's
  metadata :: "string \<rightharpoonup> py_value"

text \<open>\<^verbatim>\<open>str(n)\<close> for an integer: its decimal digits, with a sign when negative.\<close>

definition digit_char :: "nat \<Rightarrow> char" where
  "digit_char d = ''0123456789'' ! d"

fun nat_digits :: "nat \<Rightarrow> string" where
  "nat_digits n =
     (if n < 10 then [digit_char n] else nat_digits (n div 10) @ [digit_char (n mod 10)])"

declare nat_digits.simps [simp del]

definition int_str :: "int \<Rightarrow> string" where
  "int_str i = (if i < 0 then CHR ''-'' # nat_digits (nat (- i)) else nat_digits (nat i))"

text \<open>A replacement field \<^verbatim>\<open>{v}\<close> of an f-string without a format spec renders \<^verbatim>\<open>str(v)\<close>.\<close>

fun py_str :: "py_value \<Rightarrow> string" where
  "py_str (PyStr s) = s"
| "py_str (PyInt i) = int_str i"

text \<open>\<^verbatim>\<open>d.get(k, dflt)\<close>: never an error, the default when the key is missing.\<close>

definition dict_get :: "('k \<rightharpoonup> 'v) \<Rightarrow> 'k \<Rightarrow> 'v \<Rightarrow> 'v" where
  "dict_get d k dflt = (case d k of None \<Rightarrow> dflt | Some v \<Rightarrow> v)"

text \<open>\<^verbatim>\<open>sep.join(parts)\<close>.\<close>

fun join :: "string \<Rightarrow> string list \<Rightarrow> string" where
  "join sep [] = []"
| "join sep [x] = x"
| "join sep (x # y # ys) = x @ sep @ join sep (y # ys)"

subsection \<open>\<^verbatim>\<open>format_context_from_results\<close>\<close>

text \<open>The body of the loop: the f-string of one document chunk.\<close>

definition context_part :: "('s \<Rightarrow> string) \<Rightarrow> int \<Rightarrow> 's retrieval_result \<Rightarrow> string" where
  "context_part format_3f idx result =
     (let file_name = dict_get (metadata result) ''file_name'' (PyStr ''Unknown'');
          chunk_index = dict_get (metadata result) ''chunk_index'' (PyStr ''N/A'');
          score = score result
      in ''Document '' @ int_str idx @ '' (Source: '' @ py_str file_name @
         '', Chunk: '' @ py_str chunk_index @ '', Relevance: '' @ format_3f score @
         ''):\<newline>'' @ text result)"

text \<open>
  The loop \<^verbatim>\<open>for idx, result in enumerate(results, 1)\<close>, which appends one part for
  each result; \<open>idx\<close> is the running index.
\<close>

fun context_parts :: "('s \<Rightarrow> string) \<Rightarrow> int \<Rightarrow> 's retrieval_result list \<Rightarrow> string list" where
  "context_parts format_3f idx [] = []"
| "context_parts format_3f idx (result # results) =
     context_part format_3f idx result # context_parts format_3f (idx + 1) results"

text \<open>
  The return expression is \<^verbatim>\<open>"\n\n" + ("-" * 80) + "\n\n".join(context_parts)\<close>. A method
  call binds tighter than \<^verbatim>\<open>+\<close>, so the string that joins the parts is
  \<^verbatim>\<open>"\n\n"\<close> alone and the dashes are prepended once.
\<close>

definition format_context_from_results ::
  "('s \<Rightarrow> string) \<Rightarrow> 's retrieval_result list \<Rightarrow> string" where
  "format_context_from_results format_3f results =
     (if results = [] then ''No relevant context found.''
      else (''\<newline>\<newline>'' @ replicate 80 CHR ''-'') @
           join ''\<newline>\<newline>'' (context_parts format_3f 1 results))"

subsection \<open>The prompt templates\<close>

definition SYSTEM_PROMPT :: string where
  \<open>SYSTEM_PROMPT =
     ''You are a helpful assistant for {company_name}.\<newline>'' @
     ''\<newline>'' @
     ''IMPORTANT RULES:\<newline>'' @
     ''1. **Casual conversation & Persona** (greetings, closings like "bye" or "thank you", "how are you", your identity, basic company info):\<newline>'' @
     ''   - Respond naturally like a helpful human assistant\<newline>'' @
     ''   - Be warm, friendly, and highly conversational\<newline>'' @
     ''   - Example (greeting): "I'm doing well, thank you! How can I assist you today?"\<newline>'' @
     ''   - Example (closing): "You're very welcome! Have a great day!" or "Goodbye! Feel free to reach out if you need anything else."\<newline>'' @
     ''   - Don't mention you're an AI unless specifically asked\<newline>'' @
     ''   - Your name is MHK Nova, and you are a helpful AI assistant built for {company_name}. (Answer questions like "who are you", "what is MHK Nova" using this info directly).\<newline>'' @
     ''   - Mr. Rajesh is the CEO of the company. (Answer questions about the CEO using this info directly).\<newline>'' @
     ''\<newline>'' @
     ''2. **Factual/informational questions (excluding persona info above)**: ONLY use the Context below.\<newline>'' @
     ''   - No context or answer not found '' @ [CHR 0xE2, CHR 0x86, CHR 0x92] @ '' "I don't have that information. Please ask about {company_name}'s services or products."\<newline>'' @
     ''   - Never use general knowledge or make assumptions\<newline>'' @
     ''\<newline>'' @
     ''3. **When using Context**: Be clear, concise, and cite sources.\<newline>'' @
     ''\<newline>'' @
     ''Context:\<newline>'' @
     ''{context}''\<close>

definition USER_PROMPT :: string where
  \<open>USER_PROMPT =
     ''Question: {query}\<newline>'' @
     ''\<newline>'' @
     ''Please provide a helpful answer based on the context provided.''\<close>

text \<open>
  The text of \<open>SYSTEM_PROMPT\<close> before, between and after its placeholders, in order:
  \<open>SYSTEM_PROMPT\<close> is these four texts with \<^verbatim>\<open>{company_name}\<close> after each of the
  first three and \<^verbatim>\<open>{context}\<close> after the fourth (lemma \<open>SYSTEM_PROMPT_texts\<close>).
\<close>

definition SYSTEM_PROMPT_text1 :: string where
  \<open>SYSTEM_PROMPT_text1 =
     ''You are a helpful assistant for ''\<close>

definition SYSTEM_PROMPT_text2 :: string where
  \<open>SYSTEM_PROMPT_text2 =
     ''.\<newline>'' @
     ''\<newline>'' @
     ''IMPORTANT RULES:\<newline>'' @
     ''1. **Casual conversation & Persona** (greetings, closings like "bye" or "thank you", "how are you", your identity, basic company info):\<newline>'' @
     ''   - Respond naturally like a helpful human assistant\<newline>'' @
     ''   - Be warm, friendly, and highly conversational\<newline>'' @
     ''   - Example (greeting): "I'm doing well, thank you! How can I assist you today?"\<newline>'' @
     ''   - Example (closing): "You're very welcome! Have a great day!" or "Goodbye! Feel free to reach out if you need anything else."\<newline>'' @
     ''   - Don't mention you're an AI unless specifically asked\<newline>'' @
     ''   - Your name is MHK Nova, and you are a helpful AI assistant built for ''\<close>

definition SYSTEM_PROMPT_text3 :: string where
  \<open>SYSTEM_PROMPT_text3 =
     ''. (Answer questions like "who are you", "what is MHK Nova" using this info directly).\<newline>'' @
     ''   - Mr. Rajesh is the CEO of the company. (Answer questions about the CEO using this info directly).\<newline>'' @
     ''\<newline>'' @
     ''2. **Factual/informational questions (excluding persona info above)**: ONLY use the Context below.\<newline>'' @
     ''   - No context or answer not found '' @ [CHR 0xE2, CHR 0x86, CHR 0x92] @ '' "I don't have that information. Please ask about ''\<close>

definition SYSTEM_PROMPT_text4 :: string where
  \<open>SYSTEM_PROMPT_text4 =
     '''s services or products."\<newline>'' @
     ''   - Never use general knowledge or make assumptions\<newline>'' @
     ''\<newline>'' @
     ''3. **When using Context**: Be clear, concise, and cite sources.\<newline>'' @
     ''\<newline>'' @
     ''Context:\<newline>''\<close>

text \<open>A character of a template that is not a brace.\<close>

definition no_brace :: "char \<Rightarrow> bool" where
  "no_brace c \<longleftrightarrow> c \<noteq> CHR ''{'' \<and> c \<noteq> CHR ''}''"

subsection \<open>\<^verbatim>\<open>str.format\<close> with keyword arguments\<close>

datatype py_error = KeyError string | ValueError | NotModelled

text \<open>
  \<^verbatim>\<open>template.format(**kwargs)\<close>, read from left to right: \<^verbatim>\<open>{{\<close> and \<^verbatim>\<open>}}\<close> are
  literal braces, \<^verbatim>\<open>{name}\<close> is replaced by the value of the keyword argument
  \<open>name\<close> and raises \<^verbatim>\<open>KeyError\<close> when there is none, a brace without its partner
  raises \<^verbatim>\<open>ValueError\<close>. The second argument of \<open>str_format_from\<close> is the field
  name read so far, \<open>None\<close> outside a replacement field. The other forms of a
  replacement field (empty or numbered, with an attribute, an index, a conversion or a
  format spec) do not occur in the templates and give \<open>NotModelled\<close>.
\<close>

definition emit :: "string \<Rightarrow> py_error + string \<Rightarrow> py_error + string" where
  "emit s r = (case r of Inl e \<Rightarrow> Inl e | Inr t \<Rightarrow> Inr (s @ t))"

definition plain_field :: "string \<Rightarrow> bool" where
  "plain_field name \<longleftrightarrow>
     name \<noteq> [] \<and> \<not> list_all (\<lambda>c. c \<in> set ''0123456789'') name \<and>
     list_all (\<lambda>c. c \<notin> set ''.[!:{'') name"

fun str_format_from ::
  "(string \<rightharpoonup> string) \<Rightarrow> string option \<Rightarrow> string \<Rightarrow> py_error + string" where
  "str_format_from kwargs None [] = Inr []"
| "str_format_from kwargs None (c # cs) =
     (if c = CHR ''{'' then
        (case cs of
           [] \<Rightarrow> Inl ValueError
         | d # ds \<Rightarrow> if d = CHR ''{'' then emit ''{'' (str_format_from kwargs None ds)
                    else str_format_from kwargs (Some []) cs)
      else if c = CHR ''}'' then
        (case cs of
           [] \<Rightarrow> Inl ValueError
         | d # ds \<Rightarrow> if d = CHR ''}'' then emit ''}'' (str_format_from kwargs None ds)
                    else Inl ValueError)
      else emit [c] (str_format_from kwargs None cs))"
| "str_format_from kwargs (Some name) [] = Inl ValueError"
| "str_format_from kwargs (Some name) (c # cs) =
     (if c = CHR ''}'' then
        (if plain_field name then
           (case kwargs name of
              None \<Rightarrow> Inl (KeyError name)
            | Some v \<Rightarrow> emit v (str_format_from kwargs None cs))
         else Inl NotModelled)
      else str_format_from kwargs (Some (name @ [c])) cs)"

definition str_format :: "string \<Rightarrow> (string \<rightharpoonup> string) \<Rightarrow> py_error + string" where
  "str_format template kwargs = str_format_from kwargs None template"

subsection \<open>\<^verbatim>\<open>format_system_prompt\<close> and \<^verbatim>\<open>format_user_prompt\<close>\<close>

text \<open>
  Both return what \<^verbatim>\<open>format\<close> returns and catch nothing: an error of the
  substitution is the result of the function. The templates are module globals, read
  when the function is called: \<open>format_system_prompt_with\<close> and
  \<open>format_user_prompt_with\<close> are the two bodies for a given value of the global, and
  the functions themselves are the bodies at the templates of the module.
\<close>

definition format_system_prompt_with ::
  "string \<Rightarrow> string \<Rightarrow> string \<Rightarrow> py_error + string" where
  "format_system_prompt_with template company_name context =
     str_format template [''company_name'' \<mapsto> company_name, ''context'' \<mapsto> context]"

definition format_system_prompt :: "string \<Rightarrow> string \<Rightarrow> py_error + string" where
  "format_system_prompt company_name context =
     format_system_prompt_with SYSTEM_PROMPT company_name context"

definition format_user_prompt_with :: "string \<Rightarrow> string \<Rightarrow> py_error + string" where
  "format_user_prompt_with template query = str_format template [''query'' \<mapsto> query]"

definition format_user_prompt :: "string \<Rightarrow> py_error + string" where
  "format_user_prompt query = format_user_prompt_with USER_PROMPT query"

section \<open>Properties\<close>

subsection \<open>The loop of the truncator\<close>

lemma partition_history_fst:
  "fst (partition_history h s os) =
     (if filter is_system h = [] then s else Some (last (filter is_system h)))"
  by (induction h arbitrary: s os) (auto simp: is_system_def)

lemma partition_history_snd:
  "snd (partition_history h s os) = os @ filter is_other h"
  by (induction h arbitrary: s os) (auto simp: is_system_def is_other_def)

lemma is_system_truthy: "is_system m \<Longrightarrow> dict_truthy m"
  by (auto simp: is_system_def dict_truthy_def)

lemma truncate_eq:
  "truncate_conversation_history h n =
     (if h = [] then []
      else (if filter is_system h = [] then [] else [last (filter is_system h)])
           @ (if int (length (filter is_other h)) > n
              then slice_from (filter is_other h) (- n) else filter is_other h))"
proof -
  obtain s os where p: "partition_history h None [] = (s, os)"
    by (cases "partition_history h None []")
  have s: "s = (if filter is_system h = [] then None else Some (last (filter is_system h)))"
    using partition_history_fst[of h None "[]"] p by simp
  have os: "os = filter is_other h"
    using partition_history_snd[of h None "[]"] p by simp
  have t: "dict_truthy (last (filter is_system h))" if "filter is_system h \<noteq> []"
  proof -
    from that have "last (filter is_system h) \<in> set (filter is_system h)" by (rule last_in_set)
    then show ?thesis by (simp add: is_system_truthy)
  qed
  show ?thesis
    unfolding truncate_conversation_history_def p using s os t by (simp add: Let_def)
qed

lemma slice_from_last: "0 < n \<Longrightarrow> slice_from xs (- n) = drop (length xs - nat n) xs"
  by (auto simp: slice_from_def Let_def max_def nat_diff_distrib' intro: arg_cong[where f="\<lambda>k. drop k xs"])

lemma slice_from_zero: "slice_from xs 0 = xs"
  by (simp add: slice_from_def)

lemma slice_from_sublist: "set (slice_from xs i) \<subseteq> set xs"
  by (simp add: slice_from_def Let_def set_drop_subset)

lemma is_other_not_system: "is_other m \<Longrightarrow> \<not> is_system m"
  by (simp add: is_other_def is_system_def)

lemma is_system_not_other: "is_system m \<Longrightarrow> \<not> is_other m"
  by (simp add: is_other_def is_system_def)

lemma truncate_parts:
  "h \<noteq> [] \<Longrightarrow> truncate_conversation_history h n = system_part h @ kept_others h n"
  by (simp add: truncate_eq system_part_def kept_others_def)

lemma system_part_all: "\<forall>m\<in>set (system_part h). is_system m"
proof (cases "filter is_system h = []")
  case True then show ?thesis by (simp add: system_part_def)
next
  case False
  then have "last (filter is_system h) \<in> set (filter is_system h)" by (rule last_in_set)
  then show ?thesis using False by (simp add: system_part_def)
qed

lemma kept_others_all: "\<forall>m\<in>set (kept_others h n). is_other m"
  using slice_from_sublist[of "filter is_other h" "- n"] by (auto simp: kept_others_def)

lemma filter_system_parts:
  "filter is_system (system_part h @ kept_others h n) = system_part h"
  using system_part_all[of h] kept_others_all[of h n]
  by (auto simp: filter_empty_conv filter_id_conv dest: is_other_not_system)

lemma filter_other_parts:
  "filter is_other (system_part h @ kept_others h n) = kept_others h n"
  using system_part_all[of h] kept_others_all[of h n]
  by (auto simp: filter_empty_conv filter_id_conv dest: is_system_not_other)

lemma kept_others_stable:
  assumes "0 \<le> n"
  shows "(if int (length (kept_others h n)) > n
          then slice_from (kept_others h n) (- n) else kept_others h n) = kept_others h n"
proof (cases "n = 0")
  case True then show ?thesis by (simp add: slice_from_zero)
next
  case False
  with assms have pos: "0 < n" by simp
  have "int (length (kept_others h n)) \<le> n"
    using pos by (auto simp: kept_others_def slice_from_last)
  then show ?thesis by simp
qed

subsection \<open>Truncation: what holds for every history\<close>

text \<open>
  Claim C8. The truncator is idempotent: for every history and every \<open>max_messages \<ge> 0\<close>,
  truncating the truncated history again with the same \<open>max_messages\<close> changes nothing.
\<close>

theorem truncate_idempotent:
  assumes "0 \<le> n"
  shows "truncate_conversation_history (truncate_conversation_history h n) n
         = truncate_conversation_history h n"
proof (cases "truncate_conversation_history h n = []")
  case True
  then show ?thesis by (simp add: truncate_conversation_history_def)
next
  case False
  then have h: "h \<noteq> []" by (auto simp: truncate_conversation_history_def)
  let ?out = "system_part h @ kept_others h n"
  have out: "truncate_conversation_history h n = ?out" using h by (rule truncate_parts)
  have ne: "?out \<noteq> []" using False out by simp
  have sp: "system_part ?out = system_part h"
    unfolding system_part_def[of ?out] filter_system_parts by (simp add: system_part_def)
  have ko: "kept_others ?out n = kept_others h n"
    unfolding kept_others_def[of ?out] filter_other_parts using kept_others_stable[OF assms] .
  have "truncate_conversation_history ?out n = system_part ?out @ kept_others ?out n"
    using ne by (rule truncate_parts)
  then show ?thesis using out sp ko by simp
qed

text \<open>
  Claim C3. When the history holds two or more messages with role \<^verbatim>\<open>"system"\<close>, the
  output holds exactly one message with that role, it is the last system message of the
  history, and it stands at position zero: no occurrence of an earlier system message is
  kept. This holds for every \<open>max_messages\<close>.
\<close>

theorem truncate_last_system_wins:
  assumes "2 \<le> length (filter is_system h)"
  shows "filter is_system (truncate_conversation_history h n) = [last (filter is_system h)]
       \<and> truncate_conversation_history h n ! 0 = last (filter is_system h)"
proof -
  from assms have f: "filter is_system h \<noteq> []" by auto
  then have h: "h \<noteq> []" by auto
  have sp: "system_part h = [last (filter is_system h)]" using f by (simp add: system_part_def)
  have out: "truncate_conversation_history h n = system_part h @ kept_others h n"
    using h by (rule truncate_parts)
  show ?thesis unfolding out filter_system_parts by (simp add: sp)
qed

text \<open>
  Claim C5. A message without a \<^verbatim>\<open>role\<close> key is never in the output, whatever the
  history and \<open>max_messages\<close> are; in particular every such entry of the history is
  dropped. The truncator raises nothing: \<^verbatim>\<open>get\<close>, \<^verbatim>\<open>in\<close>, \<^verbatim>\<open>len\<close> and the
  slice are total, so the model is a total function without an error result.
\<close>

theorem truncate_drops_roleless:
  "m ''role'' = None \<Longrightarrow> m \<notin> set (truncate_conversation_history h n)"
proof (cases "h = []")
  case True then show ?thesis by (simp add: truncate_conversation_history_def)
next
  case False
  assume r: "m ''role'' = None"
  have "\<not> is_system m" "\<not> is_other m" using r by (simp_all add: is_system_def is_other_def)
  then show ?thesis
    using system_part_all[of h] kept_others_all[of h n] truncate_parts[OF False, of n] by auto
qed


subsection \<open>Concrete histories\<close>

lemma mk_message_role: "mk_message r c ''role'' = Some r"
  by (simp add: mk_message_def)

lemma mk_message_content: "mk_message r c ''content'' = Some c"
  by (simp add: mk_message_def)

lemma mk_message_system: "is_system (mk_message r c) \<longleftrightarrow> r = ''system''"
  by (simp add: is_system_def mk_message_role)

lemma mk_message_other: "is_other (mk_message r c) \<longleftrightarrow> r \<noteq> ''system''"
  by (simp add: is_other_def mk_message_role)

lemma mk_message_truthy: "dict_truthy (mk_message r c)"
  by (simp add: dict_truthy_def mk_message_def)

lemmas eval_truncate =
  truncate_conversation_history_def slice_from_def mk_message_role mk_message_truthy

theorem truncate_idempotent_witness:
  "(0::int) \<le> 2 \<and>
   truncate_conversation_history
     (truncate_conversation_history
        [mk_message ''system'' ''s'', mk_message ''user'' ''a'', mk_message ''assistant'' ''b'',
         mk_message ''user'' ''c''] 2) 2 =
   [mk_message ''system'' ''s'', mk_message ''assistant'' ''b'', mk_message ''user'' ''c'']"
proof -
  have n: "(0::int) \<le> 2" by simp
  show ?thesis
    using truncate_idempotent [OF n, of "[mk_message ''system'' ''s'', mk_message ''user'' ''a'',
      mk_message ''assistant'' ''b'', mk_message ''user'' ''c'']"]
    by (simp add: eval_truncate)
qed

theorem truncate_last_system_wins_witness:
  "2 \<le> length (filter is_system
       [mk_message ''system'' ''old'', mk_message ''user'' ''a'', mk_message ''system'' ''new''])
   \<and> filter is_system (truncate_conversation_history
       [mk_message ''system'' ''old'', mk_message ''user'' ''a'', mk_message ''system'' ''new''] 10)
     = [mk_message ''system'' ''new'']
   \<and> truncate_conversation_history
       [mk_message ''system'' ''old'', mk_message ''user'' ''a'', mk_message ''system'' ''new''] 10 ! 0
     = mk_message ''system'' ''new''"
proof -
  have two: "2 \<le> length (filter is_system
       [mk_message ''system'' ''old'', mk_message ''user'' ''a'', mk_message ''system'' ''new''])"
    by (simp add: mk_message_system)
  show ?thesis
    using two truncate_last_system_wins [OF two, of 10] by (simp add: mk_message_system)
qed

theorem truncate_drops_roleless_witness:
  "[''content'' \<mapsto> ''x''] ''role'' = None \<and>
   [''content'' \<mapsto> ''x''] \<notin> set (truncate_conversation_history
      [mk_message ''user'' ''a'', [''content'' \<mapsto> ''x''], mk_message ''user'' ''b''] 10)"
proof -
  have r: "[''content'' \<mapsto> ''x''] ''role'' = (None :: string option)" by simp
  show ?thesis
    using r truncate_drops_roleless [of "[''content'' \<mapsto> ''x'']"
      "[mk_message ''user'' ''a'', [''content'' \<mapsto> ''x''], mk_message ''user'' ''b'']" 10]
    by simp
qed

subsection \<open>Truncation with \<open>max_messages = 0\<close>\<close>

text \<open>
  For a positive \<open>max_messages\<close> the slice \<^verbatim>\<open>other_msgs[-max_messages:]\<close> is the trailing
  \<open>max_messages\<close> messages, and the output is never longer than \<open>max_messages + 1\<close>.
\<close>

lemma truncate_keeps_trailing:
  assumes "0 < n" and "n < int (length (filter is_other h))"
  shows "truncate_conversation_history h n =
           system_part h @ drop (length (filter is_other h) - nat n) (filter is_other h)"
proof -
  from assms have "h \<noteq> []" by auto
  then show ?thesis
    using assms by (simp add: truncate_parts kept_others_def slice_from_last)
qed

lemma truncate_length_bound:
  assumes "0 < n"
  shows "int (length (truncate_conversation_history h n)) \<le> n + 1"
proof (cases "h = []")
  case True
  then show ?thesis using assms by (simp add: truncate_conversation_history_def)
next
  case False
  have "length (system_part h) \<le> 1" by (simp add: system_part_def)
  moreover have "int (length (kept_others h n)) \<le> n"
    using assms by (auto simp: kept_others_def slice_from_last)
  ultimately show ?thesis using truncate_parts [OF False, of n] by simp
qed

text \<open>With \<open>max_messages = 2\<close> and five other messages, the last two are kept.\<close>

lemma truncate_two_of_five:
  assumes "length (filter is_other h) = 5"
  shows "truncate_conversation_history h 2 = system_part h @ drop 3 (filter is_other h)"
  using truncate_keeps_trailing [of 2 h] assms by simp

text \<open>
  For every \<open>max_messages\<close> the output has at most one system message, and a system
  message of the output stands at position zero.
\<close>

lemma truncate_one_system_at_front:
  "length (filter is_system (truncate_conversation_history h n)) \<le> 1
   \<and> (\<forall>i < length (truncate_conversation_history h n).
        is_system (truncate_conversation_history h n ! i) \<longrightarrow> i = 0)"
proof (cases "h = []")
  case True
  then show ?thesis by (simp add: truncate_conversation_history_def)
next
  case False
  have out: "truncate_conversation_history h n = system_part h @ kept_others h n"
    using False by (rule truncate_parts)
  have one: "length (system_part h) \<le> 1" by (simp add: system_part_def)
  have "i = 0" if "i < length (system_part h @ kept_others h n)"
    and "is_system ((system_part h @ kept_others h n) ! i)" for i
  proof (cases "i < length (system_part h)")
    case True
    with one show ?thesis by simp
  next
    case False
    with that(1) have "(system_part h @ kept_others h n) ! i \<in> set (kept_others h n)"
      by (simp add: nth_append)
    with kept_others_all [of h n] have "is_other ((system_part h @ kept_others h n) ! i)"
      by blast
    with that(2) show ?thesis by (simp add: is_other_not_system)
  qed
  then show ?thesis unfolding out filter_system_parts using one by blast
qed

text \<open>
  Claim C2, at \<open>max_messages = 0\<close>. The history has two messages that are not system
  messages, more than \<open>max_messages\<close>, so the claim asks for the trailing zero of them:
  the empty list. The slice \<^verbatim>\<open>other_msgs[-0:]\<close> is \<^verbatim>\<open>other_msgs[0:]\<close>, the whole list,
  and both messages are returned.
\<close>

theorem truncate_zero_keeps_all:
  "truncate_conversation_history
     [mk_message ''user'' ''a'', mk_message ''assistant'' ''b''] 0 =
   [mk_message ''user'' ''a'', mk_message ''assistant'' ''b'']"
  by (simp add: eval_truncate)

text \<open>
  Claim C9, at \<open>max_messages = 0\<close>. The claim bounds the length of the output by
  \<open>max_messages + 1 = 1\<close>; for a history of three user messages the output has length 3.
\<close>

theorem truncate_zero_length:
  "length (truncate_conversation_history
     [mk_message ''user'' ''a'', mk_message ''user'' ''b'', mk_message ''user'' ''c''] 0) = 3"
  by (simp add: eval_truncate)

subsection \<open>\<^verbatim>\<open>build_messages\<close>\<close>

text \<open>
  Claim C4. For every system prompt, user prompt and history list, the result is the
  system message, then the history as it is, then the user message: it has
  \<open>2 + length history\<close> elements, the first has role \<^verbatim>\<open>"system"\<close> and the system prompt
  as content, the last has role \<^verbatim>\<open>"user"\<close> and the user prompt as content, and the
  elements between them are the history.
\<close>

theorem build_messages_shape:
  "build_messages system_prompt user_prompt (Some history) =
     mk_message ''system'' system_prompt # history @ [mk_message ''user'' user_prompt]
   \<and> length (build_messages system_prompt user_prompt (Some history)) = 2 + length history
   \<and> hd (build_messages system_prompt user_prompt (Some history)) ''role'' = Some ''system''
   \<and> hd (build_messages system_prompt user_prompt (Some history)) ''content'' = Some system_prompt
   \<and> last (build_messages system_prompt user_prompt (Some history)) ''role'' = Some ''user''
   \<and> last (build_messages system_prompt user_prompt (Some history)) ''content'' = Some user_prompt
   \<and> butlast (tl (build_messages system_prompt user_prompt (Some history))) = history"
proof -
  have "build_messages system_prompt user_prompt (Some history) =
          mk_message ''system'' system_prompt # history @ [mk_message ''user'' user_prompt]"
    by (simp add: build_messages_def Let_def)
  then show ?thesis
    by (simp add: mk_message_role mk_message_content butlast_append)
qed

lemma build_messages_no_history:
  "build_messages system_prompt user_prompt None =
     [mk_message ''system'' system_prompt, mk_message ''user'' user_prompt]"
  by (simp add: build_messages_def Let_def)

subsection \<open>\<^verbatim>\<open>format_context_from_results\<close>\<close>

lemma context_parts_length: "length (context_parts f idx results) = length results"
  by (induction results arbitrary: idx) simp_all

lemma context_parts_nth:
  "i < length results \<Longrightarrow>
   context_parts f idx results ! i = context_part f (idx + int i) (results ! i)"
proof (induction results arbitrary: idx i)
  case Nil
  then show ?case by simp
next
  case (Cons r rs)
  show ?case
  proof (cases i)
    case 0
    then show ?thesis by simp
  next
    case (Suc j)
    with Cons.prems have "j < length rs" by simp
    from Cons.IH [OF this, of "idx + 1"] Suc show ?thesis by (simp add: algebra_simps)
  qed
qed

lemma format_context_nonempty:
  "results \<noteq> [] \<Longrightarrow>
   format_context_from_results f results =
     ''\<newline>\<newline>'' @ replicate 80 CHR ''-'' @
     join ''\<newline>\<newline>'' (context_parts f 1 results)"
  by (simp add: format_context_from_results_def)

lemmas eval_context =
  format_context_from_results_def context_part_def dict_get_def int_str_def
  nat_digits.simps digit_char_def

text \<open>
  Claim C6. For the empty list of results the formatter returns the fixed string
  \<^verbatim>\<open>No relevant context found.\<close>, whatever the rendering of scores is.
\<close>

theorem format_context_empty:
  "format_context_from_results format_3f [] = ''No relevant context found.''"
  by (simp add: format_context_from_results_def)

text \<open>
  Claim C1, at a list of two results. The output has the two document blocks in input
  order, each with its 1-based index, file name, chunk index, rendered score and text.
  The line of 80 dashes stands once, before the first block and on the same line as it;
  between the two blocks there is an empty line only and no divider, where the claim
  asks for the divider between consecutive blocks.
\<close>

theorem format_context_two_results:
  "format_context_from_results format_3f
     [\<lparr>text = ''alpha'', score = s1,
        metadata = [''file_name'' \<mapsto> PyStr ''a.pdf'', ''chunk_index'' \<mapsto> PyInt 0]\<rparr>,
      \<lparr>text = ''beta'', score = s2,
        metadata = [''file_name'' \<mapsto> PyStr ''b.pdf'', ''chunk_index'' \<mapsto> PyInt 7]\<rparr>] =
   ''\<newline>\<newline>'' @ replicate 80 CHR ''-'' @
   ''Document 1 (Source: a.pdf, Chunk: 0, Relevance: '' @ format_3f s1 @ ''):\<newline>alpha'' @
   ''\<newline>\<newline>'' @
   ''Document 2 (Source: b.pdf, Chunk: 7, Relevance: '' @ format_3f s2 @ ''):\<newline>beta''"
  by (simp add: eval_context)

lemma join_Cons: "join sep (x # ys) = x @ concat (map (\<lambda>b. sep @ b) ys)"
  by (induction ys arbitrary: x) simp_all

lemma join_at:
  "i < length xs \<Longrightarrow>
   join sep xs =
     concat (map (\<lambda>b. b @ sep) (take i xs)) @ xs ! i @
     concat (map (\<lambda>b. sep @ b) (drop (Suc i) xs))"
proof (induction i arbitrary: xs)
  case 0
  then show ?case by (cases xs) (simp_all add: join_Cons)
next
  case (Suc i)
  then obtain x y ys where xs: "xs = x # y # ys"
    by (cases xs; cases "tl xs") auto
  with Suc.prems have "i < length (y # ys)" by simp
  from Suc.IH [OF this] show ?case by (simp add: xs)
qed

lemma context_parts_map:
  "context_parts f idx results =
     map (\<lambda>j. context_part f (idx + int j) (results ! j)) [0..<length results]"
  by (rule nth_equalityI) (simp_all add: context_parts_length context_parts_nth)


text \<open>
  Claim C10. For every list of results and every position \<open>i\<close> in it, the returned
  string is the two newlines and the 80 dashes, the blocks of the results before \<open>i\<close>,
  each followed by an empty line, the block of result \<open>i\<close>, and the blocks of the
  results after \<open>i\<close>, each after an empty line. In the block of result \<open>i\<close> a
  file name that is missing from the metadata is rendered as \<^verbatim>\<open>Unknown\<close> and a
  missing chunk index as \<^verbatim>\<open>N/A\<close>. So the formatter returns a string with that
  block whatever keys the metadata has: the two lookups are \<^verbatim>\<open>metadata.get\<close> with
  a default, which cannot raise.
\<close>

theorem missing_metadata_defaults:
  assumes "i < length results"
  shows "format_context_from_results format_3f results =
           ''\<newline>\<newline>'' @ replicate 80 CHR ''-'' @
           concat (map (\<lambda>j. context_part format_3f (1 + int j) (results ! j) @
                            ''\<newline>\<newline>'') [0..<i]) @
           (''Document '' @ int_str (1 + int i) @
            '' (Source: '' @
            (case metadata (results ! i) ''file_name'' of
               None \<Rightarrow> ''Unknown'' | Some v \<Rightarrow> py_str v) @
            '', Chunk: '' @
            (case metadata (results ! i) ''chunk_index'' of
               None \<Rightarrow> ''N/A'' | Some v \<Rightarrow> py_str v) @
            '', Relevance: '' @ format_3f (score (results ! i)) @
            ''):\<newline>'' @ text (results ! i)) @
           concat (map (\<lambda>j. ''\<newline>\<newline>'' @
                            context_part format_3f (1 + int j) (results ! j))
                       [Suc i..<length results])"
proof -
  let ?sep = "''\<newline>\<newline>''"
  let ?g = "\<lambda>j. context_part format_3f (1 + int j) (results ! j)"
  let ?parts = "context_parts format_3f 1 results"
  from assms have ne: "results \<noteq> []" by auto
  have parts: "?parts = map ?g [0..<length results]" by (rule context_parts_map)
  have len: "i < length ?parts" using assms by (simp add: context_parts_length)
  have before: "take i ?parts = map ?g [0..<i]"
    using assms by (simp add: parts take_map take_upt)
  have after: "drop (Suc i) ?parts = map ?g [Suc i..<length results]"
    by (simp add: parts drop_map drop_upt)
  have at: "?parts ! i = ?g i"
    using assms by (simp add: context_parts_nth)
  have block: "?g i =
      ''Document '' @ int_str (1 + int i) @
      '' (Source: '' @
      (case metadata (results ! i) ''file_name'' of
         None \<Rightarrow> ''Unknown'' | Some v \<Rightarrow> py_str v) @
      '', Chunk: '' @
      (case metadata (results ! i) ''chunk_index'' of
         None \<Rightarrow> ''N/A'' | Some v \<Rightarrow> py_str v) @
      '', Relevance: '' @ format_3f (score (results ! i)) @
      ''):\<newline>'' @ text (results ! i)"
    by (simp add: context_part_def dict_get_def split: option.splits)
  have "join ?sep ?parts =
      concat (map (\<lambda>b. b @ ?sep) (take i ?parts)) @ ?parts ! i @
      concat (map (\<lambda>b. ?sep @ b) (drop (Suc i) ?parts))"
    using len by (rule join_at)
  also have "\<dots> =
      concat (map (\<lambda>j. ?g j @ ?sep) [0..<i]) @ ?g i @
      concat (map (\<lambda>j. ?sep @ ?g j) [Suc i..<length results])"
    unfolding before after at by (simp only: map_map o_def)
  finally have j: "join ?sep ?parts =
      concat (map (\<lambda>j. ?g j @ ?sep) [0..<i]) @ ?g i @
      concat (map (\<lambda>j. ?sep @ ?g j) [Suc i..<length results])" .
  show ?thesis
    unfolding format_context_nonempty [OF ne] j
    by (subst block) simp
qed

theorem missing_metadata_defaults_witness:
  "(1::nat) < length
      [\<lparr>text = ''alpha'', score = (), metadata = [''file_name'' \<mapsto> PyStr ''a.pdf'']\<rparr>,
       \<lparr>text = ''beta'', score = (), metadata = Map.empty\<rparr>,
       \<lparr>text = ''gamma'', score = (),
        metadata = [''file_name'' \<mapsto> PyStr ''c.pdf'', ''chunk_index'' \<mapsto> PyInt 4]\<rparr>]
   \<and> format_context_from_results (\<lambda>_. ''0.500'')
      [\<lparr>text = ''alpha'', score = (), metadata = [''file_name'' \<mapsto> PyStr ''a.pdf'']\<rparr>,
       \<lparr>text = ''beta'', score = (), metadata = Map.empty\<rparr>,
       \<lparr>text = ''gamma'', score = (),
        metadata = [''file_name'' \<mapsto> PyStr ''c.pdf'', ''chunk_index'' \<mapsto> PyInt 4]\<rparr>] =
     ''\<newline>\<newline>'' @ replicate 80 CHR ''-'' @
     ''Document 1 (Source: a.pdf, Chunk: N/A, Relevance: 0.500):\<newline>alpha'' @
     ''\<newline>\<newline>'' @
     ''Document 2 (Source: Unknown, Chunk: N/A, Relevance: 0.500):\<newline>beta'' @
     ''\<newline>\<newline>'' @
     ''Document 3 (Source: c.pdf, Chunk: 4, Relevance: 0.500):\<newline>gamma''"
proof -
  have l: "(1::nat) < length
      [\<lparr>text = ''alpha'', score = (), metadata = [''file_name'' \<mapsto> PyStr ''a.pdf'']\<rparr>,
       \<lparr>text = ''beta'', score = (), metadata = Map.empty\<rparr>,
       \<lparr>text = ''gamma'', score = (),
        metadata = [''file_name'' \<mapsto> PyStr ''c.pdf'', ''chunk_index'' \<mapsto> PyInt 4]\<rparr>]"
    by simp
  show ?thesis
    using missing_metadata_defaults [OF l, of "\<lambda>_. ''0.500''"]
    by (simp add: context_part_def dict_get_def int_str_def nat_digits.simps digit_char_def
        upt_rec)
qed

subsection \<open>Substitution into the templates\<close>

lemma emit_Inr: "emit xs (Inr t) = Inr (xs @ t)"
  by (simp add: emit_def)

lemma emit_Inl: "emit xs (Inl e) = Inl e"
  by (simp add: emit_def)

lemma emit_emit: "emit [c] (emit xs r) = emit (c # xs) r"
  by (simp add: emit_def split: sum.splits)

lemma emit_Nil: "emit [] r = r"
  by (simp add: emit_def split: sum.splits)

lemma str_format_from_plain:
  "list_all no_brace xs \<Longrightarrow>
   str_format_from kw None (xs @ ys) = emit xs (str_format_from kw None ys)"
  by (induction xs) (simp_all add: emit_Nil emit_emit no_brace_def)

lemma str_format_from_company_name:
  "str_format_from kw None (''{company_name}'' @ ys) =
     (case kw ''company_name'' of
        None \<Rightarrow> Inl (KeyError ''company_name'')
      | Some v \<Rightarrow> emit v (str_format_from kw None ys))"
  by (simp add: plain_field_def)

lemma str_format_from_context:
  "str_format_from kw None ''{context}'' =
     (case kw ''context'' of
        None \<Rightarrow> Inl (KeyError ''context'')
      | Some v \<Rightarrow> Inr v)"
  by (simp add: plain_field_def emit_def split: option.splits)

lemma SYSTEM_PROMPT_text1_plain: "list_all no_brace SYSTEM_PROMPT_text1"
  by (simp add: SYSTEM_PROMPT_text1_def no_brace_def)

lemma SYSTEM_PROMPT_text2_plain: "list_all no_brace SYSTEM_PROMPT_text2"
  by (simp add: SYSTEM_PROMPT_text2_def no_brace_def)

lemma SYSTEM_PROMPT_text3_plain: "list_all no_brace SYSTEM_PROMPT_text3"
  by (simp add: SYSTEM_PROMPT_text3_def no_brace_def)

lemma SYSTEM_PROMPT_text4_plain: "list_all no_brace SYSTEM_PROMPT_text4"
  by (simp add: SYSTEM_PROMPT_text4_def no_brace_def)

lemma SYSTEM_PROMPT_texts:
  "SYSTEM_PROMPT =
     SYSTEM_PROMPT_text1 @ ''{company_name}'' @
     SYSTEM_PROMPT_text2 @ ''{company_name}'' @
     SYSTEM_PROMPT_text3 @ ''{company_name}'' @
     SYSTEM_PROMPT_text4 @ ''{context}''"
  by (simp add: SYSTEM_PROMPT_def SYSTEM_PROMPT_text1_def SYSTEM_PROMPT_text2_def
      SYSTEM_PROMPT_text3_def SYSTEM_PROMPT_text4_def)

lemma str_format_SYSTEM_PROMPT:
  "str_format SYSTEM_PROMPT kw =
     (case kw ''company_name'' of
        None \<Rightarrow> Inl (KeyError ''company_name'')
      | Some cn \<Rightarrow>
          (case kw ''context'' of
             None \<Rightarrow> Inl (KeyError ''context'')
           | Some ctx \<Rightarrow>
               Inr (SYSTEM_PROMPT_text1 @ cn @ SYSTEM_PROMPT_text2 @ cn @
                    SYSTEM_PROMPT_text3 @ cn @ SYSTEM_PROMPT_text4 @ ctx)))"
  unfolding str_format_def SYSTEM_PROMPT_texts
  by (simp only: str_format_from_plain [OF SYSTEM_PROMPT_text1_plain]
      str_format_from_plain [OF SYSTEM_PROMPT_text2_plain]
      str_format_from_plain [OF SYSTEM_PROMPT_text3_plain]
      str_format_from_plain [OF SYSTEM_PROMPT_text4_plain]
      str_format_from_company_name str_format_from_context
      emit_Inr emit_Inl option.case split: option.splits) simp

lemma str_format_USER_PROMPT:
  "str_format USER_PROMPT kw =
     (case kw ''query'' of
        None \<Rightarrow> Inl (KeyError ''query'')
      | Some q \<Rightarrow>
          Inr (''Question: '' @ q @
               ''\<newline>\<newline>Please provide a helpful answer based on the context provided.''))"
  by (simp add: str_format_def USER_PROMPT_def plain_field_def emit_def split: option.splits)


text \<open>
  Substitution into a template that has a placeholder without a keyword argument.
\<close>

lemma emit_append: "emit xs (emit ys r) = emit (xs @ ys) r"
  by (simp add: emit_def split: sum.splits)

lemma emit_eq_Inr: "emit s r = Inr p \<longleftrightarrow> (\<exists>t. r = Inr t \<and> p = s @ t)"
  by (auto simp: emit_def split: sum.splits)

lemma str_format_from_append:
  "str_format_from kw st pre = Inr p \<Longrightarrow>
   str_format_from kw st (pre @ rest) = emit p (str_format_from kw None rest)"
proof (induction kw st pre arbitrary: p rule: str_format_from.induct)
  case (1 kwargs)
  then show ?case by (simp add: emit_Nil)
next
  case (2 kwargs c cs)
  show ?case
  proof (cases "c = CHR ''{''")
    case open_brace: True
    show ?thesis
    proof (cases cs)
      case Nil
      with "2.prems" open_brace show ?thesis by simp
    next
      case (Cons d ds)
      show ?thesis
      proof (cases "d = CHR ''{''")
        case True
        with "2.prems" open_brace Cons obtain t
          where t: "str_format_from kwargs None ds = Inr t" "p = ''{'' @ t"
          by (auto simp: emit_eq_Inr)
        from "2.IH"(1) [OF open_brace Cons True t(1)]
        show ?thesis using open_brace Cons True t(2) by (simp add: emit_append)
      next
        case False
        with "2.prems" open_brace Cons
        have "str_format_from kwargs (Some []) cs = Inr p" by simp
        from "2.IH"(2) [OF open_brace Cons False this]
        show ?thesis using open_brace Cons False by simp
      qed
    qed
  next
    case not_open: False
    show ?thesis
    proof (cases "c = CHR ''}''")
      case close_brace: True
      show ?thesis
      proof (cases cs)
        case Nil
        with "2.prems" close_brace show ?thesis by simp
      next
        case (Cons d ds)
        show ?thesis
        proof (cases "d = CHR ''}''")
          case True
          with "2.prems" close_brace Cons obtain t
            where t: "str_format_from kwargs None ds = Inr t" "p = ''}'' @ t"
            by (auto simp: emit_eq_Inr)
          from "2.IH"(3) [OF not_open close_brace Cons True t(1)]
          show ?thesis using close_brace Cons True t(2) by (simp add: emit_append)
        next
          case False
          with "2.prems" close_brace Cons show ?thesis by simp
        qed
      qed
    next
      case False
      with "2.prems" not_open obtain t
        where t: "str_format_from kwargs None cs = Inr t" "p = [c] @ t"
        by (auto simp: emit_eq_Inr)
      from "2.IH"(4) [OF not_open False t(1)]
      show ?thesis using not_open False t(2) by (simp add: emit_append)
    qed
  qed
next
  case (3 kwargs name)
  then show ?case by simp
next
  case (4 kwargs name c cs)
  show ?case
  proof (cases "c = CHR ''}''")
    case True
    with "4.prems" have pf: "plain_field name"
      by (simp split: if_splits)
    with "4.prems" True obtain v t where v: "kwargs name = Some v"
      and t: "str_format_from kwargs None cs = Inr t" "p = v @ t"
      by (auto simp: emit_eq_Inr split: option.splits)
    from "4.IH"(1) [OF True pf v t(1)]
    show ?thesis using True pf v t(2) by (simp add: emit_append)
  next
    case False
    with "4.prems" have "str_format_from kwargs (Some (name @ [c])) cs = Inr p" by simp
    from "4.IH"(2) [OF False this]
    show ?thesis using False by simp
  qed
qed

lemma str_format_from_name:
  "CHR ''}'' \<notin> set name \<Longrightarrow>
   str_format_from kw (Some acc) (name @ CHR ''}'' # ys) =
     (if plain_field (acc @ name) then
        (case kw (acc @ name) of
           None \<Rightarrow> Inl (KeyError (acc @ name))
         | Some v \<Rightarrow> emit v (str_format_from kw None ys))
      else Inl NotModelled)"
  by (induction name arbitrary: acc) (auto split: option.splits)

lemma plain_field_hd: "plain_field name \<Longrightarrow> \<exists>d ds. name = d # ds \<and> d \<noteq> CHR ''{''"
  by (cases name) (auto simp: plain_field_def)

lemma str_format_from_missing:
  assumes "plain_field name" and "CHR ''}'' \<notin> set name" and "kw name = None"
  shows "str_format_from kw None (''{'' @ name @ ''}'' @ post) = Inl (KeyError name)"
proof -
  from plain_field_hd [OF assms(1)] obtain d ds where n: "name = d # ds" "d \<noteq> CHR ''{''"
    by blast
  have "str_format_from kw None (''{'' @ name @ ''}'' @ post) =
        str_format_from kw (Some []) (name @ CHR ''}'' # post)"
    using n by simp
  also have "\<dots> = Inl (KeyError name)"
    using str_format_from_name [OF assms(2), of kw "[]" post] assms(1,3) by simp
  finally show ?thesis .
qed

lemma str_format_missing:
  assumes "str_format pre kw = Inr p"
    and "plain_field name" and "CHR ''}'' \<notin> set name" and "kw name = None"
  shows "str_format (pre @ ''{'' @ name @ ''}'' @ post) kw = Inl (KeyError name)"
proof -
  have "str_format_from kw None (pre @ ''{'' @ name @ ''}'' @ post) =
        emit p (str_format_from kw None (''{'' @ name @ ''}'' @ post))"
    using assms(1) unfolding str_format_def by (rule str_format_from_append)
  also have "\<dots> = Inl (KeyError name)"
    using str_format_from_missing [of name kw post] assms(2,3,4) by (simp add: emit_Inl)
  finally show ?thesis by (simp add: str_format_def)
qed

lemma str_format_plain: "list_all no_brace xs \<Longrightarrow> str_format xs kw = Inr xs"
  using str_format_from_plain [of xs kw "[]"] by (simp add: str_format_def emit_Inr)

text \<open>
  Claim C7. With the templates of the module both functions return the template with
  every placeholder replaced by its argument. The functions return the result of the
  substitution as it is, so a template with a placeholder that is missing from the
  arguments of the function makes the function fail: when the template is
  \<open>pre\<close>, then \<^verbatim>\<open>{name}\<close>, then \<open>post\<close>, where the function substitutes into
  \<open>pre\<close> without an error and \<open>name\<close> is not a keyword that the function passes,
  the result of the function is the error \<^verbatim>\<open>KeyError\<close> of that name.
\<close>

theorem format_prompts_substitute:
  "format_system_prompt company_name context =
       Inr (SYSTEM_PROMPT_text1 @ company_name @ SYSTEM_PROMPT_text2 @ company_name @
            SYSTEM_PROMPT_text3 @ company_name @ SYSTEM_PROMPT_text4 @ context)
   \<and> format_user_prompt query =
       Inr (''Question: '' @ query @
            ''\<newline>\<newline>Please provide a helpful answer based on the context provided.'')
   \<and> SYSTEM_PROMPT =
       SYSTEM_PROMPT_text1 @ ''{company_name}'' @
       SYSTEM_PROMPT_text2 @ ''{company_name}'' @
       SYSTEM_PROMPT_text3 @ ''{company_name}'' @
       SYSTEM_PROMPT_text4 @ ''{context}''
   \<and> (format_system_prompt_with pre company_name context = Inr p \<and>
        plain_field name \<and> CHR ''}'' \<notin> set name \<and>
        name \<noteq> ''company_name'' \<and> name \<noteq> ''context'' \<longrightarrow>
        format_system_prompt_with (pre @ ''{'' @ name @ ''}'' @ post) company_name context =
          Inl (KeyError name))
   \<and> (format_user_prompt_with upre query = Inr up \<and>
        plain_field uname \<and> CHR ''}'' \<notin> set uname \<and> uname \<noteq> ''query'' \<longrightarrow>
        format_user_prompt_with (upre @ ''{'' @ uname @ ''}'' @ upost) query =
          Inl (KeyError uname))"
proof -
  have sys: "format_system_prompt company_name context =
       Inr (SYSTEM_PROMPT_text1 @ company_name @ SYSTEM_PROMPT_text2 @ company_name @
            SYSTEM_PROMPT_text3 @ company_name @ SYSTEM_PROMPT_text4 @ context)"
    unfolding format_system_prompt_def format_system_prompt_with_def str_format_SYSTEM_PROMPT
    by simp
  have usr: "format_user_prompt query =
       Inr (''Question: '' @ query @
            ''\<newline>\<newline>Please provide a helpful answer based on the context provided.'')"
    unfolding format_user_prompt_def format_user_prompt_with_def str_format_USER_PROMPT
    by simp
  have sys_fail: "format_system_prompt_with (pre @ ''{'' @ name @ ''}'' @ post)
        company_name context = Inl (KeyError name)"
    if "format_system_prompt_with pre company_name context = Inr p"
      and "plain_field name" and "CHR ''}'' \<notin> set name"
      and "name \<noteq> ''company_name''" and "name \<noteq> ''context''"
  proof -
    let ?kw = "[''company_name'' \<mapsto> company_name, ''context'' \<mapsto> context]"
    have "?kw name = None" using that(4,5) by simp
    with that(1,2,3) show ?thesis
      unfolding format_system_prompt_with_def by (rule str_format_missing)
  qed
  have usr_fail: "format_user_prompt_with (upre @ ''{'' @ uname @ ''}'' @ upost) query =
        Inl (KeyError uname)"
    if "format_user_prompt_with upre query = Inr up"
      and "plain_field uname" and "CHR ''}'' \<notin> set uname" and "uname \<noteq> ''query''"
  proof -
    have "[''query'' \<mapsto> query] uname = None" using that(4) by simp
    with that(1,2,3) show ?thesis
      unfolding format_user_prompt_with_def by (rule str_format_missing)
  qed
  from sys usr SYSTEM_PROMPT_texts sys_fail usr_fail show ?thesis by blast
qed

theorem format_prompts_substitute_witness:
  "format_system_prompt_with ''Question: '' ''ACME'' ''ctx'' = Inr ''Question: ''
   \<and> plain_field ''query'' \<and> CHR ''}'' \<notin> set ''query''
   \<and> ''query'' \<noteq> ''company_name'' \<and> ''query'' \<noteq> ''context''
   \<and> format_system_prompt_with USER_PROMPT ''ACME'' ''ctx'' = Inl (KeyError ''query'')
   \<and> format_user_prompt_with SYSTEM_PROMPT_text1 ''Who?'' = Inr SYSTEM_PROMPT_text1
   \<and> plain_field ''company_name'' \<and> CHR ''}'' \<notin> set ''company_name''
   \<and> ''company_name'' \<noteq> ''query''
   \<and> format_user_prompt_with SYSTEM_PROMPT ''Who?'' = Inl (KeyError ''company_name'')"
proof -
  let ?upost = "''\<newline>\<newline>Please provide a helpful answer based on the context provided.''"
  let ?spost = "SYSTEM_PROMPT_text2 @ ''{company_name}'' @
     SYSTEM_PROMPT_text3 @ ''{company_name}'' @ SYSTEM_PROMPT_text4 @ ''{context}''"
  note T = format_prompts_substitute
    [of "''ACME''" "''ctx''" "''Who?''" "''Question: ''" "''Question: ''" "''query''" ?upost
       SYSTEM_PROMPT_text1 SYSTEM_PROMPT_text1 "''company_name''" ?spost]
  have h1: "format_system_prompt_with ''Question: '' ''ACME'' ''ctx'' = Inr ''Question: ''"
    unfolding format_system_prompt_with_def by (rule str_format_plain) (simp add: no_brace_def)
  have h2: "plain_field ''query'' \<and> CHR ''}'' \<notin> set ''query''
      \<and> ''query'' \<noteq> ''company_name'' \<and> ''query'' \<noteq> ''context''"
    by (simp add: plain_field_def)
  have h3: "format_user_prompt_with SYSTEM_PROMPT_text1 ''Who?'' = Inr SYSTEM_PROMPT_text1"
    unfolding format_user_prompt_with_def
    using SYSTEM_PROMPT_text1_plain by (rule str_format_plain)
  have h4: "plain_field ''company_name'' \<and> CHR ''}'' \<notin> set ''company_name''
      \<and> ''company_name'' \<noteq> ''query''"
    by (simp add: plain_field_def)
  have u: "USER_PROMPT = ''Question: '' @ ''{'' @ ''query'' @ ''}'' @ ?upost"
    by (simp add: USER_PROMPT_def)
  have s: "SYSTEM_PROMPT = SYSTEM_PROMPT_text1 @ ''{'' @ ''company_name'' @ ''}'' @ ?spost"
    unfolding SYSTEM_PROMPT_texts by simp
  from T h1 h2 have c1: "format_system_prompt_with USER_PROMPT ''ACME'' ''ctx'' =
      Inl (KeyError ''query'')"
    unfolding u by blast
  from T h3 h4 have c2: "format_user_prompt_with SYSTEM_PROMPT ''Who?'' =
      Inl (KeyError ''company_name'')"
    unfolding s by blast
  from h1 h2 h3 h4 c1 c2 show ?thesis by blast
qed

end
